theory Spec2Isabelle
  imports Complex_Main
begin

section \<open>JavaScript values used by the two stores\<close>

text \<open>
  Strings are lists of characters; \<open>s.length\<close> is \<^const>\<open>length\<close> and the truthiness
  test \<open>if (s)\<close> of a string is \<open>s \<noteq> []\<close>.  A property typed \<open>T | null\<close> or declared
  optional (\<open>phone?: string\<close>) is a \<open>T option\<close>, with \<open>None\<close> for null or undefined.
  A \<open>number\<close> is carried as a real; neither store computes with one.
\<close>

type_synonym number = real

text \<open>
  \<open>s.split(sep)\<close> for a separator of one character: the pieces between the occurrences
  of the separator, from left to right. The array it returns always has a first element
  (\<open>"".split("@")\<close> is \<open>[""]\<close>).
\<close>

fun split_js :: "char \<Rightarrow> string \<Rightarrow> string list" where
  "split_js sep [] = [[]]"
| "split_js sep (c # cs) =
     (if c = sep then [] # split_js sep cs
      else (c # hd (split_js sep cs)) # tl (split_js sep cs))"

text \<open>
  \<open>n.toString()\<close> for an integral number below \<open>10^21\<close> in magnitude, which is what
  \<open>Date.now()\<close> returns: the decimal digits, most significant first, after a minus
  sign when the number is negative.
\<close>

definition digit :: "nat \<Rightarrow> char" where
  "digit d = ''0123456789'' ! d"

fun digits :: "nat \<Rightarrow> string" where
  "digits n = (if n < 10 then [digit n] else digits (n div 10) @ [digit (n mod 10)])"

definition toString :: "int \<Rightarrow> string" where
  "toString i = (if i < 0 then CHR ''-'' # digits (nat (- i)) else digits (nat i))"

declare digits.simps [simp del]

text \<open>
  Reading a decimal numeral back, \<open>parseInt\<close> on a string of digits. The store does not
  call it; it is the inverse that shows two numbers with the same digits to be equal.
\<close>

definition digit_val :: "char \<Rightarrow> nat" where
  "digit_val c = of_char c - 48"

definition decimal :: "string \<Rightarrow> nat" where
  "decimal s = foldl (\<lambda>a c. 10 * a + digit_val c) 0 s"

section \<open>Identity store (authStore.ts)\<close>

subsection \<open>State\<close>

record User =
  user_id :: string
  user_email :: string
  user_name :: string
  user_phone :: "string option"
  user_address :: "string option"
  user_joinDate :: string
  user_isEmailVerified :: bool
  user_isPhoneVerified :: bool

datatype VerificationMethod = Email | Phone

record VerificationState =
  emailVerificationSent :: bool
  phoneVerificationSent :: bool
  emailVerified :: bool
  phoneVerified :: bool
  verificationMethod :: "VerificationMethod option"

record AuthStore =
  user :: "User option"
  isLoggedIn :: bool
  verification :: VerificationState

text \<open>The object the store is created with (lines 48 to 56).\<close>

definition initialVerification :: VerificationState where
  "initialVerification =
     \<lparr> emailVerificationSent = False, phoneVerificationSent = False,
       emailVerified = False, phoneVerified = False, verificationMethod = None \<rparr>"

definition initialAuthStore :: AuthStore where
  "initialAuthStore = \<lparr> user = None, isLoggedIn = False, verification = initialVerification \<rparr>"

subsection \<open>Actions\<close>

text \<open>
  An action takes the store's state when its body runs and returns the state it leaves
  (\<open>set\<close> merges the given properties into the state and keeps the others); an
  \<open>async\<close> action that returns a boolean returns it beside the state. The one second
  timer that \<open>login\<close> and \<open>signup\<close> await first changes nothing and is left out. What
  they read from the clock is an argument: \<open>stamp\<close> is \<open>new Date().toISOString()\<close> and
  \<open>now\<close> is \<open>Date.now()\<close>.
\<close>

definition login :: "string \<Rightarrow> string \<Rightarrow> string \<Rightarrow> AuthStore \<Rightarrow> bool \<times> AuthStore" where
  "login email password stamp s =
     (if email \<noteq> [] \<and> length password \<ge> 6 then
        let u = \<lparr> user_id = ''1'',
                  user_email = email,
                  user_name = hd (split_js CHR ''@'' email),
                  user_phone = None,
                  user_address = None,
                  user_joinDate = stamp,
                  user_isEmailVerified = True,
                  user_isPhoneVerified = False \<rparr>
        in (True, s\<lparr> user := Some u, isLoggedIn := True \<rparr>)
      else (False, s))"

record SignupData =
  signup_email :: string
  signup_password :: string
  signup_name :: string
  signup_phone :: "string option"

definition signup :: "int \<Rightarrow> string \<Rightarrow> SignupData \<Rightarrow> AuthStore \<Rightarrow> bool \<times> AuthStore" where
  "signup now stamp userData s =
     (let u = \<lparr> user_id = toString now,
                user_email = signup_email userData,
                user_name = signup_name userData,
                user_phone = signup_phone userData,
                user_address = None,
                user_joinDate = stamp,
                user_isEmailVerified = False,
                user_isPhoneVerified = False \<rparr>
      in (True, s\<lparr> user := Some u, isLoggedIn := True \<rparr>))"

definition logout :: "AuthStore \<Rightarrow> AuthStore" where
  "logout s =
     s\<lparr> user := None,
        isLoggedIn := False,
        verification :=
          \<lparr> emailVerificationSent = False, phoneVerificationSent = False,
            emailVerified = False, phoneVerified = False, verificationMethod = None \<rparr> \<rparr>"

text \<open>
  \<open>Partial<User>\<close>: every property may be missing (\<open>None\<close>). The two optional
  properties of \<open>User\<close> may also be present and undefined (\<open>Some None\<close>), and the spread
  \<open>{ ...user, ...userData }\<close> then overwrites with undefined.
\<close>

record PartialUser =
  p_id :: "string option"
  p_email :: "string option"
  p_name :: "string option"
  p_phone :: "string option option"
  p_address :: "string option option"
  p_joinDate :: "string option"
  p_isEmailVerified :: "bool option"
  p_isPhoneVerified :: "bool option"

definition spread :: "'a \<Rightarrow> 'a option \<Rightarrow> 'a" where
  "spread old new = (case new of None \<Rightarrow> old | Some v \<Rightarrow> v)"

definition updateProfile :: "PartialUser \<Rightarrow> AuthStore \<Rightarrow> AuthStore" where
  "updateProfile userData s =
     (case user s of
        None \<Rightarrow> s
      | Some u \<Rightarrow>
          s\<lparr> user := Some
            \<lparr> user_id = spread (user_id u) (p_id userData),
              user_email = spread (user_email u) (p_email userData),
              user_name = spread (user_name u) (p_name userData),
              user_phone = spread (user_phone u) (p_phone userData),
              user_address = spread (user_address u) (p_address userData),
              user_joinDate = spread (user_joinDate u) (p_joinDate userData),
              user_isEmailVerified = spread (user_isEmailVerified u) (p_isEmailVerified userData),
              user_isPhoneVerified = spread (user_isPhoneVerified u) (p_isPhoneVerified userData) \<rparr> \<rparr>)"

definition setVerificationMethod :: "VerificationMethod \<Rightarrow> AuthStore \<Rightarrow> AuthStore" where
  "setVerificationMethod method s =
     s\<lparr> verification := (verification s)\<lparr> verificationMethod := Some method \<rparr> \<rparr>"

definition setEmailVerificationSent :: "bool \<Rightarrow> AuthStore \<Rightarrow> AuthStore" where
  "setEmailVerificationSent sent s =
     s\<lparr> verification := (verification s)\<lparr> emailVerificationSent := sent \<rparr> \<rparr>"

definition setPhoneVerificationSent :: "bool \<Rightarrow> AuthStore \<Rightarrow> AuthStore" where
  "setPhoneVerificationSent sent s =
     s\<lparr> verification := (verification s)\<lparr> phoneVerificationSent := sent \<rparr> \<rparr>"

definition setEmailVerified :: "bool \<Rightarrow> AuthStore \<Rightarrow> AuthStore" where
  "setEmailVerified verified s =
     s\<lparr> verification := (verification s)\<lparr> emailVerified := verified \<rparr> \<rparr>"

definition setPhoneVerified :: "bool \<Rightarrow> AuthStore \<Rightarrow> AuthStore" where
  "setPhoneVerified verified s =
     s\<lparr> verification := (verification s)\<lparr> phoneVerified := verified \<rparr> \<rparr>"

definition resetVerification :: "AuthStore \<Rightarrow> AuthStore" where
  "resetVerification s =
     s\<lparr> verification :=
          \<lparr> emailVerificationSent = False, phoneVerificationSent = False,
            emailVerified = False, phoneVerified = False, verificationMethod = None \<rparr> \<rparr>"

subsection \<open>Persistence\<close>

text \<open>The \<open>partialize\<close> option (lines 162 to 165): the part of the state that is stored.\<close>

record Persisted =
  persisted_user :: "User option"
  persisted_isLoggedIn :: bool

definition partialize :: "AuthStore \<Rightarrow> Persisted" where
  "partialize state = \<lparr> persisted_user = user state, persisted_isLoggedIn = isLoggedIn state \<rparr>"

text \<open>
  The \<open>persist\<close> middleware that wraps the store is the zustand library's and is not
  among the sources; the two definitions below follow the spec's description of it. The
  durable store maps a key to the subset stored under it; the key of this store is the
  \<open>name\<close> option (line 161).
\<close>

type_synonym storage = "string \<rightharpoonup> Persisted"

text \<open>
  Modelled from the spec: writing the state to the durable store, absent from the
  sources (zustand's \<open>persist\<close>). The spec: after a committed mutation, only the
  declared durable subset of fields is written to a keyed durable store.
\<close>

definition persist :: "AuthStore \<Rightarrow> storage \<Rightarrow> storage" where
  "persist s st = st(''auth-storage'' \<mapsto> partialize s)"

text \<open>
  Modelled from the spec: reading the state back on startup, absent from the sources
  (zustand's \<open>persist\<close>). The spec: the durable subset is read back before first use,
  and what is not in it starts from the store's initial object, so that each session
  starts unverified. With nothing stored the store is the initial one.
\<close>

definition reload :: "storage \<Rightarrow> AuthStore" where
  "reload st =
     (case st ''auth-storage'' of
        None \<Rightarrow> initialAuthStore
      | Some p \<Rightarrow> initialAuthStore\<lparr> user := persisted_user p, isLoggedIn := persisted_isLoggedIn p \<rparr>)"

section \<open>Admin store (part_000)\<close>

subsection \<open>State\<close>

datatype Role = RoleUser | RoleAdmin

record AdminUser =
  au_id :: string
  au_email :: string
  au_name :: string
  au_phone :: "string option"
  au_joinDate :: string
  au_lastLoginDate :: "string option"
  au_isActive :: bool
  au_role :: Role

record OrderItem =
  item_productId :: number
  item_productName :: string
  item_quantity :: number
  item_price :: number

datatype OrderStatus = Pending | Paid | Shipping | Delivered | Cancelled

record Order =
  order_id :: string
  order_userId :: string
  order_userName :: string
  order_userEmail :: string
  order_items :: "OrderItem list"
  order_totalAmount :: number
  order_status :: OrderStatus
  order_orderDate :: string
  order_deliveryAddress :: string

record Product =
  product_id :: number
  product_name :: string
  product_price :: number
  product_originalPrice :: "number option"
  product_category :: string
  product_stock :: number
  product_isActive :: bool
  product_createdDate :: string
  product_sales :: number

record OrdersByStatus =
  pending :: number
  paid :: number
  shipping :: number
  delivered :: number
  cancelled :: number

record DashboardStats =
  totalUsers :: number
  newUsersThisMonth :: number
  totalRevenue :: number
  revenueGrowth :: number
  totalOrders :: number
  ordersByStatus :: OrdersByStatus
  bestSellingProducts :: "Product list"
  lowStockProducts :: "Product list"

record AdminStore =
  isAdminLoggedIn :: bool
  adminUser :: "AdminUser option"
  users :: "AdminUser list"
  orders :: "Order list"
  products :: "Product list"
  dashboardStats :: DashboardStats

text \<open>The object the store is created with (lines 112 to 132).\<close>

definition initialAdminStore :: AdminStore where
  "initialAdminStore =
     \<lparr> isAdminLoggedIn = False,
       adminUser = None,
       users = [],
       orders = [],
       products = [],
       dashboardStats =
         \<lparr> totalUsers = 0, newUsersThisMonth = 0, totalRevenue = 0, revenueGrowth = 0,
           totalOrders = 0,
           ordersByStatus = \<lparr> pending = 0, paid = 0, shipping = 0, delivered = 0, cancelled = 0 \<rparr>,
           bestSellingProducts = [],
           lowStockProducts = [] \<rparr> \<rparr>"

subsection \<open>The remote service\<close>

text \<open>
  What the promise of \<open>apiCall\<close> (lines 93 to 107) settles to: it is rejected when
  \<open>fetch\<close> fails, when the response is not ok, or when the body is not JSON, and is
  resolved with the parsed body otherwise. A body is read at its \<open>success\<close> property
  and at the property that carries the payload (\<open>data\<close>, or \<open>user\<close> for the auth
  endpoint), at the type the store declares for the slice the payload goes to. A body
  such as \<open>null\<close>, where reading a property throws, ends in the same \<open>catch\<close> as a
  rejected promise and is \<open>Threw\<close> too.
\<close>

datatype 'a outcome = Threw | Returned 'a

record 'a Response =
  success :: bool
  data :: 'a


subsection \<open>What an action does besides changing the state\<close>

text \<open>
  The store's state goes with the list of what has happened so far, oldest first: an
  action of the store was entered, a request was sent (method and URL), an error was
  written with \<open>console.error\<close> (its first argument).
\<close>

datatype event = Called string | Request string string | ConsoleError string

record World =
  store :: AdminStore
  events :: "event list"

definition emit :: "event \<Rightarrow> World \<Rightarrow> World" where
  "emit e w = w\<lparr> events := events w @ [e] \<rparr>"

subsection \<open>Actions\<close>

text \<open>
  The outcomes of the requests an action sends are its first arguments, in the order in
  which the requests are sent. An action that awaits or starts another one is composed
  with it: the world returned is the one in which everything the action started has
  settled.
\<close>

definition adminLogout :: "World \<Rightarrow> World" where
  "adminLogout w =
     (let w = emit (Called ''adminLogout'') w
      in w\<lparr> store := (store w)\<lparr> isAdminLoggedIn := False, adminUser := None \<rparr> \<rparr>)"

definition updateDashboardStats :: "DashboardStats Response outcome \<Rightarrow> World \<Rightarrow> World" where
  "updateDashboardStats r w =
     (let w = emit (Called ''updateDashboardStats'') w;
          w = emit (Request ''GET'' ''/api/admin/dashboard'') w
      in case r of
           Threw \<Rightarrow> emit (ConsoleError ''Failed to update dashboard stats:'') w
         | Returned result \<Rightarrow>
             if success result
             then w\<lparr> store := (store w)\<lparr> dashboardStats := data result \<rparr> \<rparr>
             else w)"

definition loadInitialData ::
  "DashboardStats Response outcome \<Rightarrow> AdminUser list Response outcome \<Rightarrow>
   Product list Response outcome \<Rightarrow> Order list Response outcome \<Rightarrow> World \<Rightarrow> World" where
  "loadInitialData dash usrs prods ords w =
     (let w = emit (Called ''loadInitialData'') w;
          w = emit (Request ''GET'' ''/api/admin/dashboard'') w;
          w = emit (Request ''GET'' ''/api/admin/users'') w;
          w = emit (Request ''GET'' ''/api/admin/products'') w;
          w = emit (Request ''GET'' ''/api/admin/orders'') w
      in case (dash, usrs, prods, ords) of
           (Returned dashboardResult, Returned usersResult,
            Returned productsResult, Returned ordersResult) \<Rightarrow>
             w\<lparr> store := (store w)
                  \<lparr> dashboardStats := data dashboardResult,
                    users := data usersResult,
                    products := data productsResult,
                    orders := data ordersResult \<rparr> \<rparr>
         | _ \<Rightarrow> emit (ConsoleError ''Failed to load initial data:'') w)"


definition updateOrderStatus ::
  "'a Response outcome \<Rightarrow> DashboardStats Response outcome \<Rightarrow>
   string \<Rightarrow> OrderStatus \<Rightarrow> World \<Rightarrow> World" where
  "updateOrderStatus r dash orderId status w =
     (let w = emit (Called ''updateOrderStatus'') w;
          w = emit (Request ''PATCH'' ''/api/admin/orders'') w
      in case r of
           Threw \<Rightarrow> emit (ConsoleError ''Failed to update order status:'') w
         | Returned result \<Rightarrow>
             if success result
             then updateDashboardStats dash
                    (w\<lparr> store := (store w)
                         \<lparr> orders :=
                             map (\<lambda>order. if order_id order = orderId
                                          then order\<lparr> order_status := status \<rparr>
                                          else order)
                                 (orders (store w)) \<rparr> \<rparr>)
             else w)"

section \<open>Sample data\<close>

definition aliceSession :: AuthStore where
  "aliceSession =
     \<lparr> user = Some \<lparr> user_id = ''1'', user_email = ''alice@example.com'', user_name = ''alice'',
                     user_phone = None, user_address = None,
                     user_joinDate = ''2024-04-30T09:00:00.000Z'',
                     user_isEmailVerified = True, user_isPhoneVerified = False \<rparr>,
       isLoggedIn = True,
       verification = initialVerification \<rparr>"

definition aliceData :: SignupData where
  "aliceData = \<lparr> signup_email = ''alice@example.com'', signup_password = ''secret1'',
                 signup_name = ''Alice'', signup_phone = None \<rparr>"

definition bobData :: SignupData where
  "bobData = \<lparr> signup_email = ''bob@example.com'', signup_password = ''secret2'',
               signup_name = ''Bob'', signup_phone = Some ''010-0000-0000'' \<rparr>"

definition sampleUser :: AdminUser where
  "sampleUser =
     \<lparr> au_id = ''u1'', au_email = ''kim@example.com'', au_name = ''Kim'', au_phone = None,
       au_joinDate = ''2024-01-01'', au_lastLoginDate = None, au_isActive = True,
       au_role = RoleUser \<rparr>"

definition sampleProduct :: Product where
  "sampleProduct =
     \<lparr> product_id = 7, product_name = ''Mug'', product_price = 12,
       product_originalPrice = None, product_category = ''kitchen'', product_stock = 3,
       product_isActive = True, product_createdDate = ''2024-01-02'', product_sales = 40 \<rparr>"

definition sampleOrder :: Order where
  "sampleOrder =
     \<lparr> order_id = ''o1'', order_userId = ''u1'', order_userName = ''Kim'',
       order_userEmail = ''kim@example.com'',
       order_items =
         [\<lparr> item_productId = 7, item_productName = ''Mug'', item_quantity = 2, item_price = 12 \<rparr>],
       order_totalAmount = 24, order_status = Paid, order_orderDate = ''2024-01-03'',
       order_deliveryAddress = ''Seoul'' \<rparr>"

definition otherOrder :: Order where
  "otherOrder =
     \<lparr> order_id = ''o2'', order_userId = ''u1'', order_userName = ''Kim'',
       order_userEmail = ''kim@example.com'',
       order_items =
         [\<lparr> item_productId = 7, item_productName = ''Mug'', item_quantity = 1, item_price = 12 \<rparr>],
       order_totalAmount = 12, order_status = Pending, order_orderDate = ''2024-01-04'',
       order_deliveryAddress = ''Busan'' \<rparr>"

definition sampleStats :: DashboardStats where
  "sampleStats =
     \<lparr> totalUsers = 1, newUsersThisMonth = 1, totalRevenue = 24, revenueGrowth = 0,
       totalOrders = 1,
       ordersByStatus = \<lparr> pending = 0, paid = 1, shipping = 0, delivered = 0, cancelled = 0 \<rparr>,
       bestSellingProducts = [sampleProduct],
       lowStockProducts = [sampleProduct] \<rparr>"

definition freshWorld :: World where
  "freshWorld = \<lparr> store = initialAdminStore, events = [] \<rparr>"

definition twoOrders :: World where
  "twoOrders = \<lparr> store = initialAdminStore\<lparr> orders := [sampleOrder, otherOrder] \<rparr>, events = [] \<rparr>"

section \<open>Facts about the JavaScript values\<close>

lemma split_js_not_Nil: "split_js sep s \<noteq> []"
  by (induction s) auto

lemma hd_split_js: "hd (split_js sep s) = takeWhile (\<lambda>c. c \<noteq> sep) s"
  by (induction s) auto

lemma digits_small: "n < 10 \<Longrightarrow> digits n = [digit n]"
  by (simp add: digits.simps [of n])

lemma digits_large: "\<not> n < 10 \<Longrightarrow> digits n = digits (n div 10) @ [digit (n mod 10)]"
  by (simp add: digits.simps [of n])

lemma below_ten: "(d::nat) < 10 \<Longrightarrow> d \<in> {0, 1, 2, 3, 4, 5, 6, 7, 8, 9}"
  by auto

lemma digit_val_digit: "d < 10 \<Longrightarrow> digit_val (digit d) = d"
  by (drule below_ten) (auto simp: digit_val_def digit_def)

lemma digit_not_minus: "d < 10 \<Longrightarrow> digit d \<noteq> CHR ''-''"
  by (drule below_ten) (auto simp: digit_def)

lemma decimal_snoc: "decimal (s @ [c]) = 10 * decimal s + digit_val c"
  by (simp add: decimal_def)

lemma decimal_digits: "decimal (digits n) = n"
proof (induction n rule: digits.induct)
  case (1 n)
  show ?case
  proof (cases "n < 10")
    case True
    then show ?thesis
      by (simp add: digits_small decimal_def digit_val_digit)
  next
    case False
    then have "decimal (digits n) = 10 * decimal (digits (n div 10)) + digit_val (digit (n mod 10))"
      by (simp add: digits_large decimal_snoc)
    also have "\<dots> = 10 * (n div 10) + n mod 10"
      using 1 False by (simp add: digit_val_digit)
    finally show ?thesis by simp
  qed
qed

lemma digits_not_Nil: "digits n \<noteq> []"
  by (cases "n < 10") (simp_all add: digits_small digits_large)

lemma hd_digits_not_minus: "hd (digits n) \<noteq> CHR ''-''"
proof (induction n rule: digits.induct)
  case (1 n)
  show ?case
  proof (cases "n < 10")
    case True
    then show ?thesis by (simp add: digits_small digit_not_minus)
  next
    case False
    with 1 show ?thesis by (simp add: digits_large digits_not_Nil)
  qed
qed

lemma digits_inj: "digits m = digits n \<Longrightarrow> m = n"
  by (metis decimal_digits)

lemma toString_sign: "i < 0 \<Longrightarrow> \<not> j < 0 \<Longrightarrow> toString i \<noteq> toString j"
proof
  assume "i < 0" and "\<not> j < 0" and "toString i = toString j"
  then have "CHR ''-'' # digits (nat (- i)) = digits (nat j)"
    by (simp add: toString_def)
  then have "hd (digits (nat j)) = CHR ''-''"
    by (metis list.sel(1))
  then show False
    using hd_digits_not_minus by blast
qed

lemma toString_inj: "toString i = toString j \<Longrightarrow> i = j"
proof -
  assume eq: "toString i = toString j"
  consider "i < 0" "j < 0" | "i < 0" "\<not> j < 0" | "\<not> i < 0" "j < 0" | "\<not> i < 0" "\<not> j < 0"
    by blast
  then show ?thesis
  proof cases
    case 1
    with eq have "nat (- i) = nat (- j)"
      by (simp add: toString_def digits_inj)
    with 1 show ?thesis by simp
  next
    case 2
    with eq toString_sign show ?thesis by blast
  next
    case 3
    with eq toString_sign [of j i] show ?thesis by simp
  next
    case 4
    with eq have "nat i = nat j"
      by (simp add: toString_def digits_inj)
    with 4 show ?thesis by simp
  qed
qed

section \<open>Identity store: the claims\<close>

text \<open>
  C3. For every non-empty email and every password of length at least 6, \<open>login\<close>
  returns true, sets \<open>isLoggedIn\<close> to true and stores a user whose name is the part of
  the email before the first \<open>@\<close> (the whole email when it has none), whose id is the
  fixed \<open>"1"\<close>, whose email is marked verified and whose phone is not.
\<close>

theorem login_accepts:
  assumes "email \<noteq> []" and "6 \<le> length password"
  shows "fst (login email password stamp s) = True
       \<and> isLoggedIn (snd (login email password stamp s)) = True
       \<and> (\<exists>u. user (snd (login email password stamp s)) = Some u
              \<and> user_name u = takeWhile (\<lambda>c. c \<noteq> CHR ''@'') email
              \<and> user_id u = ''1''
              \<and> user_isEmailVerified u = True
              \<and> user_isPhoneVerified u = False)"
  using assms by (simp add: login_def hd_split_js)

theorem login_accepts_witness:
  "''alice@example.com'' \<noteq> [] \<and> 6 \<le> length ''secret''
   \<and> fst (login ''alice@example.com'' ''secret'' ''2024-05-01T09:00:00.000Z'' initialAuthStore) = True
   \<and> isLoggedIn (snd (login ''alice@example.com'' ''secret'' ''2024-05-01T09:00:00.000Z'' initialAuthStore)) = True
   \<and> (\<exists>u. user (snd (login ''alice@example.com'' ''secret'' ''2024-05-01T09:00:00.000Z'' initialAuthStore)) = Some u
          \<and> user_name u = ''alice''
          \<and> user_id u = ''1''
          \<and> user_isEmailVerified u = True
          \<and> user_isPhoneVerified u = False)"
proof -
  have e: "''alice@example.com'' \<noteq> []" by simp
  have p: "6 \<le> length ''secret''" by simp
  show ?thesis
    using e p login_accepts [OF e p, of "''2024-05-01T09:00:00.000Z''" initialAuthStore]
    by simp
qed

text \<open>
  C4. For every password shorter than 6 or empty email, \<open>login\<close> returns false and
  leaves \<open>user\<close> and \<open>isLoggedIn\<close> as they were; the whole state is the one it started
  from.
\<close>

theorem login_rejects:
  assumes "length password < 6 \<or> email = []"
  shows "fst (login email password stamp s) = False
       \<and> user (snd (login email password stamp s)) = user s
       \<and> isLoggedIn (snd (login email password stamp s)) = isLoggedIn s
       \<and> snd (login email password stamp s) = s"
  using assms by (auto simp: login_def)

theorem login_rejects_witness:
  "(length ''12345'' < 6 \<or> ''bob@example.com'' = [])
   \<and> login ''bob@example.com'' ''12345'' ''2024-05-01T09:00:00.000Z'' aliceSession
     = (False, aliceSession)"
proof -
  have h: "length ''12345'' < 6 \<or> ''bob@example.com'' = []" by simp
  show ?thesis
    using h login_rejects [OF h, of "''2024-05-01T09:00:00.000Z''" aliceSession]
    by (simp add: prod_eq_iff)
qed

text \<open>
  C2, as stated: \<open>signup\<close> always returns true and any two calls in one session produce
  different ids. The id is the clock reading \<open>Date.now()\<close> in decimal, so two calls that
  read the same millisecond produce the same id: here the second call runs on the state
  the first one left, and both read 1700000000123.
\<close>

theorem signup_same_clock_same_id:
  "map_option user_id
     (user (snd (signup 1700000000123 ''2023-11-14T22:13:20.123Z'' aliceData initialAuthStore)))
   = map_option user_id
     (user (snd (signup 1700000000123 ''2023-11-14T22:13:20.123Z'' bobData
        (snd (signup 1700000000123 ''2023-11-14T22:13:20.123Z'' aliceData initialAuthStore)))))
   \<and> map_option user_id
     (user (snd (signup 1700000000123 ''2023-11-14T22:13:20.123Z'' aliceData initialAuthStore)))
   = Some ''1700000000123''"
  by (simp add: signup_def toString_def digits_small digits_large digit_def)

text \<open>
  C2, amended: \<open>signup\<close> always returns true, the id it stores is the decimal numeral of
  its clock reading, and two calls whose clock readings differ produce different ids,
  whatever their other arguments and the states they run on.
\<close>

theorem signup_ids:
  "fst (signup now stamp userData s) = True
   \<and> map_option user_id (user (snd (signup now stamp userData s))) = Some (toString now)
   \<and> (now \<noteq> now' \<longrightarrow>
        map_option user_id (user (snd (signup now stamp userData s)))
        \<noteq> map_option user_id (user (snd (signup now' stamp' userData' s'))))"
proof -
  have "toString now \<noteq> toString now'" if "now \<noteq> now'"
    using that toString_inj by blast
  then show ?thesis
    by (simp add: signup_def)
qed

theorem signup_ids_witness:
  "(1700000000123::int) \<noteq> 1700000000124
   \<and> fst (signup 1700000000123 ''2023-11-14T22:13:20.123Z'' aliceData initialAuthStore) = True
   \<and> map_option user_id
       (user (snd (signup 1700000000123 ''2023-11-14T22:13:20.123Z'' aliceData initialAuthStore)))
     = Some ''1700000000123''
   \<and> map_option user_id
       (user (snd (signup 1700000000123 ''2023-11-14T22:13:20.123Z'' aliceData initialAuthStore)))
     \<noteq> map_option user_id
       (user (snd (signup 1700000000124 ''2023-11-14T22:13:20.124Z'' bobData aliceSession)))"
proof -
  have h: "(1700000000123::int) \<noteq> 1700000000124" by simp
  have t: "toString 1700000000123 = ''1700000000123''"
    by (simp add: toString_def digits_small digits_large digit_def)
  show ?thesis
    using h t
      signup_ids [of 1700000000123 "''2023-11-14T22:13:20.123Z''" aliceData initialAuthStore
        1700000000124 "''2023-11-14T22:13:20.124Z''" bobData aliceSession]
    by simp
qed

text \<open>
  C7. Persisting a state of the identity store and reloading gives back the same
  \<open>user\<close> and \<open>isLoggedIn\<close>, and the verification sub-record is not restored: after the
  reload it is the initial one, no method and all four flags false.
\<close>

theorem persist_reload:
  "user (reload (persist s st)) = user s
   \<and> isLoggedIn (reload (persist s st)) = isLoggedIn s
   \<and> verification (reload (persist s st)) =
       \<lparr> emailVerificationSent = False, phoneVerificationSent = False,
         emailVerified = False, phoneVerified = False, verificationMethod = None \<rparr>"
  by (simp add: reload_def persist_def partialize_def initialAuthStore_def initialVerification_def)

text \<open>
  C8. \<open>logout\<close> is idempotent: twice is the same state as once; and after any
  \<open>logout\<close> the user is null, \<open>isLoggedIn\<close> is false and the verification sub-record
  has no method and all four flags false.
\<close>

theorem logout_idempotent:
  "logout (logout s) = logout s
   \<and> user (logout s) = None
   \<and> isLoggedIn (logout s) = False
   \<and> verification (logout s) =
       \<lparr> emailVerificationSent = False, phoneVerificationSent = False,
         emailVerified = False, phoneVerified = False, verificationMethod = None \<rparr>"
  by (simp add: logout_def)

text \<open>
  C9. \<open>login\<close> and \<open>signup\<close> leave the verification sub-record as it was, for every
  input and starting state, whether they succeed or not; so does \<open>updateProfile\<close>, the
  one other action that is neither \<open>logout\<close> nor a verification setter.
\<close>

theorem verification_kept:
  "verification (snd (login email password stamp s)) = verification s
   \<and> verification (snd (signup now stamp userData s)) = verification s
   \<and> verification (updateProfile partialUser s) = verification s"
  by (simp add: login_def signup_def updateProfile_def split: option.split)

section \<open>Admin store: the claims\<close>

text \<open>
  C1. The claim is that a response to one of the four requests of \<open>loadInitialData\<close>
  whose \<open>success\<close> is false leaves the slice it belongs to as it was.
  \<open>loadInitialData\<close> never reads \<open>success\<close>: with four resolved responses that all say
  \<open>success: false\<close> it still stores the four payloads, where \<open>updateDashboardStats\<close>,
  given the same dashboard response, leaves the statistics alone.
\<close>

theorem loadInitialData_ignores_success:
  "store (loadInitialData
            (Returned \<lparr> success = False, data = sampleStats \<rparr>)
            (Returned \<lparr> success = False, data = [sampleUser] \<rparr>)
            (Returned \<lparr> success = False, data = [sampleProduct] \<rparr>)
            (Returned \<lparr> success = False, data = [sampleOrder] \<rparr>)
            freshWorld)
   = initialAdminStore
       \<lparr> users := [sampleUser], orders := [sampleOrder], products := [sampleProduct],
         dashboardStats := sampleStats \<rparr>
   \<and> users (store freshWorld) = [] \<and> orders (store freshWorld) = []
   \<and> products (store freshWorld) = []
   \<and> dashboardStats (store freshWorld) \<noteq> sampleStats
   \<and> store (updateDashboardStats (Returned \<lparr> success = False, data = sampleStats \<rparr>) freshWorld)
     = initialAdminStore"
  by (simp add: loadInitialData_def updateDashboardStats_def emit_def freshWorld_def
      initialAdminStore_def sampleStats_def)

text \<open>
  C5. If any one of the four requests of \<open>loadInitialData\<close> throws, none of the four
  slices is updated, whatever the other three returned: the store is the one it started
  from.
\<close>

theorem loadInitialData_all_or_nothing:
  assumes "dash = Threw \<or> usrs = Threw \<or> prods = Threw \<or> ords = Threw"
  shows "dashboardStats (store (loadInitialData dash usrs prods ords w)) = dashboardStats (store w)
       \<and> users (store (loadInitialData dash usrs prods ords w)) = users (store w)
       \<and> products (store (loadInitialData dash usrs prods ords w)) = products (store w)
       \<and> orders (store (loadInitialData dash usrs prods ords w)) = orders (store w)
       \<and> store (loadInitialData dash usrs prods ords w) = store w"
proof -
  have "store (loadInitialData dash usrs prods ords w) = store w"
    using assms
    by (cases dash; cases usrs; cases prods; cases ords)
       (simp_all add: loadInitialData_def emit_def)
  then show ?thesis by simp
qed

theorem loadInitialData_all_or_nothing_witness:
  "((Returned \<lparr> success = True, data = sampleStats \<rparr> :: DashboardStats Response outcome) = Threw
    \<or> (Returned \<lparr> success = True, data = [sampleUser] \<rparr> :: AdminUser list Response outcome) = Threw
    \<or> (Threw :: Product list Response outcome) = Threw
    \<or> (Returned \<lparr> success = True, data = [sampleOrder] \<rparr> :: Order list Response outcome) = Threw)
   \<and> store (loadInitialData
        (Returned \<lparr> success = True, data = sampleStats \<rparr>)
        (Returned \<lparr> success = True, data = [sampleUser] \<rparr>)
        Threw
        (Returned \<lparr> success = True, data = [sampleOrder] \<rparr>)
        freshWorld)
     = initialAdminStore"
proof -
  have h: "(Returned \<lparr> success = True, data = sampleStats \<rparr> :: DashboardStats Response outcome) = Threw
    \<or> (Returned \<lparr> success = True, data = [sampleUser] \<rparr> :: AdminUser list Response outcome) = Threw
    \<or> (Threw :: Product list Response outcome) = Threw
    \<or> (Returned \<lparr> success = True, data = [sampleOrder] \<rparr> :: Order list Response outcome) = Threw"
    by simp
  show ?thesis
    using loadInitialData_all_or_nothing [OF h, of freshWorld]
    by (simp add: freshWorld_def)
qed



text \<open>
  C6. When the PATCH of \<open>updateOrderStatus\<close> reports success, every order keeps all of
  its fields but the status, the status becomes the new one in the orders whose id is
  \<open>orderId\<close> and stays in the others, and \<open>updateDashboardStats\<close> is called exactly
  once more than before, right after the PATCH was sent, whatever its own request
  returns.
\<close>

theorem updateOrderStatus_frame:
  assumes "success result"
  shows "list_all2
           (\<lambda>old new. order_id new = order_id old
                    \<and> order_userId new = order_userId old
                    \<and> order_userName new = order_userName old
                    \<and> order_userEmail new = order_userEmail old
                    \<and> order_items new = order_items old
                    \<and> order_totalAmount new = order_totalAmount old
                    \<and> order_orderDate new = order_orderDate old
                    \<and> order_deliveryAddress new = order_deliveryAddress old
                    \<and> order_status new = (if order_id old = orderId then status else order_status old))
           (orders (store w))
           (orders (store (updateOrderStatus (Returned result) dash orderId status w)))
       \<and> count_list (events (updateOrderStatus (Returned result) dash orderId status w))
           (Called ''updateDashboardStats'')
         = count_list (events w) (Called ''updateDashboardStats'') + 1
       \<and> take 3 (drop (length (events w))
                  (events (updateOrderStatus (Returned result) dash orderId status w)))
         = [Called ''updateOrderStatus'', Request ''PATCH'' ''/api/admin/orders'',
            Called ''updateDashboardStats'']"
proof -
  have "list_all2
           (\<lambda>old new. order_id new = order_id old
                    \<and> order_userId new = order_userId old
                    \<and> order_userName new = order_userName old
                    \<and> order_userEmail new = order_userEmail old
                    \<and> order_items new = order_items old
                    \<and> order_totalAmount new = order_totalAmount old
                    \<and> order_orderDate new = order_orderDate old
                    \<and> order_deliveryAddress new = order_deliveryAddress old
                    \<and> order_status new = (if order_id old = orderId then status else order_status old))
           xs
           (map (\<lambda>order. if order_id order = orderId then order\<lparr> order_status := status \<rparr> else order) xs)"
    for xs
    by (simp add: list_all2_map2 list_all2_refl)
  moreover have "orders (store (updateOrderStatus (Returned result) dash orderId status w))
      = map (\<lambda>order. if order_id order = orderId then order\<lparr> order_status := status \<rparr> else order)
          (orders (store w))"
    using assms
    by (cases dash) (simp_all add: updateOrderStatus_def updateDashboardStats_def emit_def Let_def)
  moreover have "count_list (events (updateOrderStatus (Returned result) dash orderId status w))
           (Called ''updateDashboardStats'')
         = count_list (events w) (Called ''updateDashboardStats'') + 1"
    using assms
    by (cases dash) (simp_all add: updateOrderStatus_def updateDashboardStats_def emit_def Let_def)
  moreover have "take 3 (drop (length (events w))
                  (events (updateOrderStatus (Returned result) dash orderId status w)))
         = [Called ''updateOrderStatus'', Request ''PATCH'' ''/api/admin/orders'',
            Called ''updateDashboardStats'']"
    using assms
    by (cases dash) (simp_all add: updateOrderStatus_def updateDashboardStats_def emit_def Let_def)
  ultimately show ?thesis by simp
qed

theorem updateOrderStatus_frame_witness:
  "success \<lparr> success = True, data = () \<rparr>
   \<and> orders (store (updateOrderStatus (Returned \<lparr> success = True, data = () \<rparr>)
        (Returned \<lparr> success = True, data = sampleStats \<rparr>) ''o1'' Delivered twoOrders))
     = [sampleOrder\<lparr> order_status := Delivered \<rparr>, otherOrder]
   \<and> count_list (events (updateOrderStatus (Returned \<lparr> success = True, data = () \<rparr>)
        (Returned \<lparr> success = True, data = sampleStats \<rparr>) ''o1'' Delivered twoOrders))
        (Called ''updateDashboardStats'') = 1
   \<and> events (updateOrderStatus (Returned \<lparr> success = True, data = () \<rparr>)
        (Returned \<lparr> success = True, data = sampleStats \<rparr>) ''o1'' Delivered twoOrders)
     = [Called ''updateOrderStatus'', Request ''PATCH'' ''/api/admin/orders'',
        Called ''updateDashboardStats'', Request ''GET'' ''/api/admin/dashboard'']"
proof -
  have h: "success \<lparr> success = True, data = () \<rparr>" by simp
  have e: "events (updateOrderStatus (Returned \<lparr> success = True, data = () \<rparr>)
        (Returned \<lparr> success = True, data = sampleStats \<rparr>) ''o1'' Delivered twoOrders)
     = [Called ''updateOrderStatus'', Request ''PATCH'' ''/api/admin/orders'',
        Called ''updateDashboardStats'', Request ''GET'' ''/api/admin/dashboard'']"
    by (simp add: updateOrderStatus_def updateDashboardStats_def emit_def twoOrders_def)
  have o: "order_id sampleOrder = ''o1''" "order_id otherOrder = ''o2''"
          "order_status otherOrder = Pending"
    by (simp_all add: sampleOrder_def otherOrder_def)
  have t: "orders (store twoOrders) = [sampleOrder, otherOrder]" "events twoOrders = []"
    by (simp_all add: twoOrders_def)
  show ?thesis
    using h o t e
      updateOrderStatus_frame [OF h, of "''o1''" Delivered twoOrders
        "Returned \<lparr> success = True, data = sampleStats \<rparr>"]
    by (auto simp: list_all2_Cons1)
qed

end
